theory Spec2Isabelle
  imports Main
begin

section \<open>Python values, exceptions, requests and responses\<close>

text \<open>
  The mixins of \<^verbatim>\<open>rest_framework_bulk/drf3/mixins.py\<close> are orchestration code over
  Django and Django REST framework. The embedding keeps every statement of the three
  mixins and takes what they call in the frameworks (querysets, serializers, the parent
  classes' methods, the ORM) as fields of a record standing for \<^verbatim>\<open>self\<close>. A call that
  may raise returns a sum, with \<open>Inl\<close> for the exception; a call with an effect on the
  persisted records takes the store and returns it.
\<close>

text \<open>A parsed request body, and more generally the Python values the views handle.\<close>

datatype json =
    JNull
  | JBool bool
  | JInt int
  | JStr string
  | JList "json list"
  | JDict "(string \<times> json) list"

text \<open>The error set of one item: field name to messages. An empty one is \<open>[]\<close>.\<close>

type_synonym errors = "(string \<times> string list) list"

text \<open>
  Exceptions. \<open>ValidationError\<close> is \<^verbatim>\<open>django.core.exceptions.ValidationError\<close>, the one
  the module imports and raises, with the list it is constructed from. \<open>Raised\<close> is any
  exception that comes out of a framework call.
\<close>

datatype exn =
    Http404
  | KeyError string
  | TypeError
  | ValidationError "errors list"
  | Raised string

text \<open>\<^verbatim>\<open>Response(data, status=...)\<close>; \<^verbatim>\<open>Response(status=...)\<close> has no data.\<close>

datatype response = Response (response_data: "json option") (status_code: nat)

definition HTTP_200_OK :: nat where "HTTP_200_OK = 200"
definition HTTP_201_CREATED :: nat where "HTTP_201_CREATED = 201"
definition HTTP_204_NO_CONTENT :: nat where "HTTP_204_NO_CONTENT = 204"
definition HTTP_400_BAD_REQUEST :: nat where "HTTP_400_BAD_REQUEST = 400"

record request =
  data :: json

text \<open>
  A queryset is an object: \<open>oid\<close> is its identity, which is all that Python's \<^verbatim>\<open>is\<close>
  compares, and \<open>rows\<close> the model instances it yields when iterated.
\<close>

record 'o queryset =
  oid :: nat
  rows :: "'o list"

definition is_not :: "'o queryset \<Rightarrow> 'o queryset \<Rightarrow> bool" where
  "is_not a b = (oid a \<noteq> oid b)"

text \<open>
  A serializer bound to one instance and one item, after \<^verbatim>\<open>is_valid()\<close> was called
  without \<^verbatim>\<open>raise_exception\<close>: the boolean it returned and its two properties.
\<close>

record item_serializer =
  is_valid :: bool
  errors :: errors
  validated_data :: json

text \<open>
  The view instance. Type \<open>'o\<close> is a model instance, \<open>'s\<close> a serializer built with
  \<^verbatim>\<open>many=True\<close>, \<open>'w\<close> the persisted records.
\<close>

record ('o, 's, 'w) view =
  lookup_url_kwarg :: "string option"
  lookup_field :: string
  kwargs :: "string \<rightharpoonup> json"
  super_get_object :: "'w \<Rightarrow> exn + 'o"
  super_create :: "request \<Rightarrow> 'w \<Rightarrow> (exn + response) \<times> 'w"
  get_queryset :: "'w \<Rightarrow> 'o queryset"
  filter_queryset :: "'o queryset \<Rightarrow> 'o queryset"
  get_object_or_404 :: "'o queryset \<Rightarrow> json \<Rightarrow> exn + 'o"
  get_serializer :: "'o \<Rightarrow> json \<Rightarrow> json \<Rightarrow> item_serializer"
  get_serializer_many :: "'o queryset option \<Rightarrow> json \<Rightarrow> json option \<Rightarrow> 's"
  is_valid_raise_exception :: "'s \<Rightarrow> exn + 's"
  set_validated_data :: "json list \<Rightarrow> 's \<Rightarrow> 's"
  serializer_save :: "'s \<Rightarrow> 'w \<Rightarrow> (exn + 's) \<times> 'w"
  perform_create :: "'s \<Rightarrow> 'w \<Rightarrow> (exn + 's) \<times> 'w"
  serializer_data :: "'s \<Rightarrow> json"
  instance_delete :: "'o \<Rightarrow> 'w \<Rightarrow> (exn + unit) \<times> 'w"

section \<open>Python primitives the module uses\<close>

text \<open>\<^verbatim>\<open>a or b\<close> on an optional string: \<^verbatim>\<open>None\<close> and the empty string are falsy.\<close>

definition py_or :: "string option \<Rightarrow> string \<Rightarrow> string" where
  "py_or a b = (case a of None \<Rightarrow> b | Some s \<Rightarrow> if s = [] then b else s)"

text \<open>\<^verbatim>\<open>value[key]\<close> with a string key.\<close>

fun getitem :: "json \<Rightarrow> string \<Rightarrow> exn + json" where
  "getitem (JDict kvs) k = (case map_of kvs k of None \<Rightarrow> Inl (KeyError k) | Some x \<Rightarrow> Inr x)"
| "getitem JNull k = Inl TypeError"
| "getitem (JBool b) k = Inl TypeError"
| "getitem (JInt i) k = Inl TypeError"
| "getitem (JStr s) k = Inl TypeError"
| "getitem (JList xs) k = Inl TypeError"

text \<open>
  \<^verbatim>\<open>for item in value\<close>: a list yields its elements, a mapping its keys, a string its
  characters; nothing else is iterable.
\<close>

fun py_iter :: "json \<Rightarrow> exn + json list" where
  "py_iter (JList xs) = Inr xs"
| "py_iter (JDict kvs) = Inr (map (\<lambda>kv. JStr (fst kv)) kvs)"
| "py_iter (JStr s) = Inr (map (\<lambda>c. JStr [c]) s)"
| "py_iter JNull = Inl TypeError"
| "py_iter (JBool b) = Inl TypeError"
| "py_iter (JInt i) = Inl TypeError"

text \<open>\<^verbatim>\<open>kwargs.pop(key, default)\<close>, the value it returns.\<close>

definition kwargs_pop :: "(string \<rightharpoonup> json) \<Rightarrow> string \<Rightarrow> json \<Rightarrow> json" where
  "kwargs_pop kw k d = (case kw k of None \<Rightarrow> d | Some x \<Rightarrow> x)"

section \<open>BulkCreateModelMixin\<close>

definition perform_bulk_create ::
  "('o, 's, 'w) view \<Rightarrow> 's \<Rightarrow> 'w \<Rightarrow> (exn + 's) \<times> 'w" where
  "perform_bulk_create self serializer w = perform_create self serializer w"

definition create ::
  "('o, 's, 'w) view \<Rightarrow> request \<Rightarrow> 'w \<Rightarrow> (exn + response) \<times> 'w" where
  "create self req w =
     (case data req of
        JList items \<Rightarrow>
          (let serializer = get_serializer_many self None (data req) None in
           case is_valid_raise_exception self serializer of
             Inl e \<Rightarrow> (Inl e, w)
           | Inr serializer1 \<Rightarrow>
               (case perform_bulk_create self serializer1 w of
                  (Inl e, w') \<Rightarrow> (Inl e, w')
                | (Inr serializer2, w') \<Rightarrow>
                    (Inr (Response (Some (serializer_data self serializer2)) HTTP_201_CREATED),
                     w')))
      | _ \<Rightarrow> super_create self req w)"

section \<open>BulkUpdateModelMixin\<close>

definition get_object :: "('o, 's, 'w) view \<Rightarrow> 'w \<Rightarrow> exn + 'o option" where
  "get_object self w =
     (let lookup_url_kwarg' = py_or (lookup_url_kwarg self) (lookup_field self) in
      if lookup_url_kwarg' \<in> dom (kwargs self) then
        (case super_get_object self w of Inl e \<Rightarrow> Inl e | Inr obj \<Rightarrow> Inr (Some obj))
      else Inr None)"

text \<open>
  \<^verbatim>\<open>get_object_or_404(self.filter_queryset(self.get_queryset()), pk=item['id'])\<close>
\<close>

definition lookup_item :: "('o, 's, 'w) view \<Rightarrow> 'w \<Rightarrow> json \<Rightarrow> exn + 'o" where
  "lookup_item self w item =
     (case getitem item ''id'' of
        Inl e \<Rightarrow> Inl e
      | Inr ident \<Rightarrow>
          get_object_or_404 self (filter_queryset self (get_queryset self w)) ident)"

text \<open>
  The loop of \<^verbatim>\<open>bulk_update\<close> over the items that are left, with its two accumulators
  \<^verbatim>\<open>validated_data\<close> and \<^verbatim>\<open>validation_errors\<close>.
\<close>

fun bulk_update_loop ::
  "('o, 's, 'w) view \<Rightarrow> 'w \<Rightarrow> json \<Rightarrow> json list \<Rightarrow> json list \<Rightarrow> errors list \<Rightarrow>
     exn + (json list \<times> errors list)" where
  "bulk_update_loop self w partial [] validated validation_errors =
     Inr (validated, validation_errors)"
| "bulk_update_loop self w partial (item # rest) validated validation_errors =
     (case lookup_item self w item of
        Inl e \<Rightarrow> Inl e
      | Inr obj \<Rightarrow>
          (let item_serializer = get_serializer self obj item partial in
           bulk_update_loop self w partial rest
             (validated @ [validated_data item_serializer])
             (if \<not> is_valid item_serializer
              then validation_errors @ [errors item_serializer]
              else validation_errors)))"

text \<open>
  The serializers the loop builds, one per item, when item \<open>i\<close> was looked up as object
  \<open>i\<close>: \<^verbatim>\<open>self.get_serializer(obj, data=item, partial=partial)\<close>.
\<close>

definition item_serializers ::
  "('o, 's, 'w) view \<Rightarrow> json \<Rightarrow> json list \<Rightarrow> 'o list \<Rightarrow> item_serializer list" where
  "item_serializers self partial items objs =
     map (\<lambda>(item, obj). get_serializer self obj item partial) (zip items objs)"

definition perform_update ::
  "('o, 's, 'w) view \<Rightarrow> 's \<Rightarrow> 'w \<Rightarrow> (exn + 's) \<times> 'w" where
  "perform_update self serializer w = serializer_save self serializer w"

definition perform_bulk_update ::
  "('o, 's, 'w) view \<Rightarrow> 's \<Rightarrow> 'w \<Rightarrow> (exn + 's) \<times> 'w" where
  "perform_bulk_update self serializer w = perform_update self serializer w"

definition bulk_update ::
  "('o, 's, 'w) view \<Rightarrow> request \<Rightarrow> (string \<rightharpoonup> json) \<Rightarrow> 'w \<Rightarrow> (exn + response) \<times> 'w" where
  "bulk_update self req kw w =
     (let partial = kwargs_pop kw ''partial'' (JBool False);
          serializer = get_serializer_many self
            (Some (filter_queryset self (get_queryset self w))) (data req) (Some partial)
      in case py_iter (data req) of
           Inl e \<Rightarrow> (Inl e, w)
         | Inr items \<Rightarrow>
             (case bulk_update_loop self w partial items [] [] of
                Inl e \<Rightarrow> (Inl e, w)
              | Inr (validated, validation_errors) \<Rightarrow>
                  if validation_errors \<noteq> [] then (Inl (ValidationError validation_errors), w)
                  else
                    (case perform_bulk_update self
                            (set_validated_data self validated serializer) w of
                       (Inl e, w') \<Rightarrow> (Inl e, w')
                     | (Inr serializer', w') \<Rightarrow>
                         (Inr (Response (Some (serializer_data self serializer')) HTTP_200_OK),
                          w'))))"

definition partial_bulk_update ::
  "('o, 's, 'w) view \<Rightarrow> request \<Rightarrow> (string \<rightharpoonup> json) \<Rightarrow> 'w \<Rightarrow> (exn + response) \<times> 'w" where
  "partial_bulk_update self req kw w = bulk_update self req (kw(''partial'' \<mapsto> JBool True)) w"

section \<open>BulkDestroyModelMixin\<close>

definition allow_bulk_destroy ::
  "('o, 's, 'w) view \<Rightarrow> 'o queryset \<Rightarrow> 'o queryset \<Rightarrow> bool" where
  "allow_bulk_destroy self qs filtered = is_not qs filtered"

definition perform_destroy ::
  "('o, 's, 'w) view \<Rightarrow> 'o \<Rightarrow> 'w \<Rightarrow> (exn + unit) \<times> 'w" where
  "perform_destroy self inst w = instance_delete self inst w"

fun perform_bulk_destroy ::
  "('o, 's, 'w) view \<Rightarrow> 'o list \<Rightarrow> 'w \<Rightarrow> (exn + unit) \<times> 'w" where
  "perform_bulk_destroy self [] w = (Inr (), w)"
| "perform_bulk_destroy self (obj # objects) w =
     (case perform_destroy self obj w of
        (Inl e, w') \<Rightarrow> (Inl e, w')
      | (Inr u, w') \<Rightarrow> perform_bulk_destroy self objects w')"

definition bulk_destroy ::
  "('o, 's, 'w) view \<Rightarrow> request \<Rightarrow> 'w \<Rightarrow> (exn + response) \<times> 'w" where
  "bulk_destroy self req w =
     (let qs = get_queryset self w;
          filtered = filter_queryset self qs
      in if \<not> allow_bulk_destroy self qs filtered
         then (Inr (Response None HTTP_400_BAD_REQUEST), w)
         else
           (case perform_bulk_destroy self (rows filtered) w of
              (Inl e, w') \<Rightarrow> (Inl e, w')
            | (Inr u, w') \<Rightarrow> (Inr (Response None HTTP_204_NO_CONTENT), w')))"

section \<open>A concrete view\<close>

text \<open>
  One instance of every framework call, small enough to run: the persisted records are
  rows of a primary key and a name, an item is valid when it carries a string under
  \<^verbatim>\<open>name\<close>, a lookup finds the row whose primary key is the identifier. None of it
  is code of the module: the theorems below hold for every view, and this one is where
  they are evaluated.
\<close>

type_synonym row = "int \<times> string"

record list_serializer =
  ls_instances :: "row list"
  ls_initial_data :: json
  ls_validated_data :: "json list"

definition to_representation :: "row \<Rightarrow> json" where
  "to_representation r = JDict [(''id'', JInt (fst r)), (''name'', JStr (snd r))]"

definition item_ok :: "json \<Rightarrow> bool" where
  "item_ok item = (case getitem item ''name'' of Inr (JStr n) \<Rightarrow> True | _ \<Rightarrow> False)"

definition name_of :: "json \<Rightarrow> string" where
  "name_of item = (case getitem item ''name'' of Inr (JStr n) \<Rightarrow> n | _ \<Rightarrow> [])"

definition demo_get_object_or_404 :: "row queryset \<Rightarrow> json \<Rightarrow> exn + row" where
  "demo_get_object_or_404 qs ident =
     (case filter (\<lambda>r. JInt (fst r) = ident) (rows qs) of
        [] \<Rightarrow> Inl Http404
      | [r] \<Rightarrow> Inr r
      | _ \<Rightarrow> Inl (Raised ''MultipleObjectsReturned''))"

definition demo_super_get_object :: "(string \<rightharpoonup> json) \<Rightarrow> row list \<Rightarrow> exn + row" where
  "demo_super_get_object kws w =
     (case kws ''pk'' of
        None \<Rightarrow> Inl (Raised ''AssertionError'')
      | Some ident \<Rightarrow> demo_get_object_or_404 \<lparr>oid = 0, rows = w\<rparr> ident)"

definition demo_get_serializer :: "row \<Rightarrow> json \<Rightarrow> json \<Rightarrow> item_serializer" where
  "demo_get_serializer obj item partial =
     (if item_ok item
      then \<lparr>is_valid = True, errors = [],
            validated_data = JDict [(''id'', JInt (fst obj)), (''name'', JStr (name_of item))]\<rparr>
      else \<lparr>is_valid = False, errors = [(''name'', [''This field is required.''])],
            validated_data = JDict []\<rparr>)"

definition demo_is_valid_raise_exception :: "list_serializer \<Rightarrow> exn + list_serializer" where
  "demo_is_valid_raise_exception s =
     (case ls_initial_data s of
        JList items \<Rightarrow>
          if list_all item_ok items then Inr (s\<lparr>ls_validated_data := items\<rparr>)
          else Inl (Raised ''rest_framework.exceptions.ValidationError'')
      | _ \<Rightarrow> Inl (Raised ''rest_framework.exceptions.ValidationError''))"

definition demo_update_row :: "json \<Rightarrow> row \<Rightarrow> row" where
  "demo_update_row vd r =
     (if getitem vd ''id'' = Inr (JInt (fst r)) then (fst r, name_of vd) else r)"

definition demo_save ::
  "list_serializer \<Rightarrow> row list \<Rightarrow> (exn + list_serializer) \<times> row list" where
  "demo_save s w =
     (Inr (s\<lparr>ls_instances := fold (\<lambda>vd. map (demo_update_row vd)) (ls_validated_data s)
                                 (ls_instances s)\<rparr>),
      fold (\<lambda>vd. map (demo_update_row vd)) (ls_validated_data s) w)"

definition demo_perform_create ::
  "list_serializer \<Rightarrow> row list \<Rightarrow> (exn + list_serializer) \<times> row list" where
  "demo_perform_create s w =
     (let created = map (\<lambda>(i, vd). (int (length w + i) + 1, name_of vd))
                        (enumerate 0 (ls_validated_data s))
      in (Inr (s\<lparr>ls_instances := created\<rparr>), w @ created))"

definition demo_super_create :: "request \<Rightarrow> row list \<Rightarrow> (exn + response) \<times> row list" where
  "demo_super_create req w =
     (if item_ok (data req)
      then (Inr (Response (Some (to_representation (int (length w) + 1, name_of (data req))))
                   HTTP_201_CREATED),
            w @ [(int (length w) + 1, name_of (data req))])
      else (Inl (Raised ''rest_framework.exceptions.ValidationError''), w))"

definition demo_view :: "(string \<rightharpoonup> json) \<Rightarrow> (row, list_serializer, row list) view" where
  "demo_view kws =
     \<lparr>lookup_url_kwarg = None,
      lookup_field = ''pk'',
      kwargs = kws,
      super_get_object = demo_super_get_object kws,
      super_create = demo_super_create,
      get_queryset = (\<lambda>w. \<lparr>oid = 0, rows = w\<rparr>),
      filter_queryset = (\<lambda>qs. \<lparr>oid = Suc (oid qs), rows = filter (\<lambda>r. 0 < fst r) (rows qs)\<rparr>),
      get_object_or_404 = demo_get_object_or_404,
      get_serializer = demo_get_serializer,
      get_serializer_many = (\<lambda>inst d partial.
        \<lparr>ls_instances = (case inst of None \<Rightarrow> [] | Some qs \<Rightarrow> rows qs),
         ls_initial_data = d, ls_validated_data = []\<rparr>),
      is_valid_raise_exception = demo_is_valid_raise_exception,
      set_validated_data = (\<lambda>vd s. s\<lparr>ls_validated_data := vd\<rparr>),
      serializer_save = demo_save,
      perform_create = demo_perform_create,
      serializer_data = (\<lambda>s. JList (map to_representation (ls_instances s))),
      instance_delete = (\<lambda>obj w. (Inr (), filter (\<lambda>r. fst r \<noteq> fst obj) w))\<rparr>"

definition demo_rows :: "row list" where
  "demo_rows = [(1, ''ann''), (2, ''bob'')]"

definition item_ann_renamed :: json where
  "item_ann_renamed = JDict [(''id'', JInt 1), (''name'', JStr ''anna'')]"

definition item_bob_nameless :: json where
  "item_bob_nameless = JDict [(''id'', JInt 2)]"

definition item_unknown :: json where
  "item_unknown = JDict [(''id'', JInt 99), (''name'', JStr ''zed'')]"

definition item_without_id :: json where
  "item_without_id = JDict [(''name'', JStr ''zed'')]"

text \<open>
  Two variants of the concrete view for bulk destroy. In the first the row with primary
  key 2 is protected: deleting it raises. In the second a delete raises when the row is
  not among the persisted records.
\<close>

definition protected_view :: "(row, list_serializer, row list) view" where
  "protected_view =
     (demo_view Map.empty)
       \<lparr>instance_delete := (\<lambda>obj w.
          if fst obj = 2 then (Inl (Raised ''ProtectedError''), w)
          else (Inr (), filter (\<lambda>r. fst r \<noteq> fst obj) w))\<rparr>"

definition strict_view :: "(row, list_serializer, row list) view" where
  "strict_view =
     (demo_view Map.empty)
       \<lparr>instance_delete := (\<lambda>obj w.
          if obj \<in> set w then (Inr (), filter (\<lambda>r. fst r \<noteq> fst obj) w)
          else (Inl (Raised ''DoesNotExist''), w))\<rparr>"

definition three_rows :: "row list" where
  "three_rows = [(1, ''ann''), (2, ''bob''), (3, ''cy'')]"

section \<open>The concrete view at work\<close>

text \<open>
  Two full runs: a bulk update of two valid items is saved, and a list of two items is
  created.
\<close>

lemma demo_bulk_update_saves:
  "bulk_update (demo_view Map.empty)
     \<lparr>data = JList [item_ann_renamed, JDict [(''id'', JInt 2), (''name'', JStr ''rob'')]]\<rparr>
     Map.empty demo_rows =
   (Inr (Response
      (Some (JList [JDict [(''id'', JInt 1), (''name'', JStr ''anna'')],
                    JDict [(''id'', JInt 2), (''name'', JStr ''rob'')]]))
      HTTP_200_OK),
    [(1, ''anna''), (2, ''rob'')])"
  by (simp add: bulk_update_def lookup_item_def demo_view_def demo_rows_def item_ann_renamed_def
      demo_get_object_or_404_def demo_get_serializer_def item_ok_def name_of_def kwargs_pop_def
      perform_bulk_update_def perform_update_def demo_save_def demo_update_row_def
      to_representation_def)

lemma demo_create_list:
  "create (demo_view Map.empty)
     \<lparr>data = JList [JDict [(''name'', JStr ''cy'')], JDict [(''name'', JStr ''di'')]]\<rparr> demo_rows =
   (Inr (Response
      (Some (JList [JDict [(''id'', JInt 3), (''name'', JStr ''cy'')],
                    JDict [(''id'', JInt 4), (''name'', JStr ''di'')]]))
      HTTP_201_CREATED),
    [(1, ''ann''), (2, ''bob''), (3, ''cy''), (4, ''di'')])"
  by (simp add: create_def demo_view_def demo_rows_def demo_is_valid_raise_exception_def
      item_ok_def name_of_def perform_bulk_create_def demo_perform_create_def enumerate_eq_zip
      to_representation_def upt_rec Let_def)

section \<open>The loop of bulk_update\<close>

lemma item_serializers_Nil [simp]: "item_serializers self partial [] [] = []"
  by (simp add: item_serializers_def)

lemma item_serializers_Cons [simp]:
  "item_serializers self partial (item # items) (obj # objs) =
     get_serializer self obj item partial # item_serializers self partial items objs"
  by (simp add: item_serializers_def)

lemma item_serializers_length:
  "length objs = length items \<Longrightarrow> length (item_serializers self partial items objs) = length items"
  by (simp add: item_serializers_def)

text \<open>When every lookup finds its object the loop reaches the end of the batch.\<close>

lemma bulk_update_loop_found:
  assumes "list_all2 (\<lambda>item obj. lookup_item self w item = Inr obj) items objs"
  shows "bulk_update_loop self w partial items validated validation_errors =
           Inr (validated @ map validated_data (item_serializers self partial items objs),
                validation_errors @
                  map errors (filter (\<lambda>s. \<not> is_valid s)
                    (item_serializers self partial items objs)))"
  using assms
proof (induction items objs arbitrary: validated validation_errors rule: list_all2_induct)
  case Nil
  then show ?case by simp
next
  case (Cons item items obj objs)
  then show ?case by (simp add: Let_def)
qed

text \<open>
  The first lookup that raises ends the loop with its exception: when no item before
  item \<open>k\<close> raises anything else than item \<open>k\<close> does, that is the exception of the loop.
\<close>

lemma bulk_update_loop_raises:
  assumes "k < length items"
    and "lookup_item self w (items ! k) = Inl e"
    and "\<forall>j<k. \<forall>e'. lookup_item self w (items ! j) = Inl e' \<longrightarrow> e' = e"
  shows "bulk_update_loop self w partial items validated validation_errors = Inl e"
  using assms
proof (induction items arbitrary: k validated validation_errors)
  case Nil
  then show ?case by simp
next
  case (Cons item items)
  show ?case
  proof (cases "lookup_item self w item")
    case (Inl e0)
    have "e0 = e"
    proof (cases k)
      case 0
      with Cons.prems(2) Inl show ?thesis by simp
    next
      case (Suc k')
      with Cons.prems(3) Inl show ?thesis by fastforce
    qed
    with Inl show ?thesis by simp
  next
    case (Inr obj)
    with Cons.prems(2) obtain k' where k: "k = Suc k'"
      by (cases k) auto
    have "\<forall>j<k'. \<forall>e'. lookup_item self w (items ! j) = Inl e' \<longrightarrow> e' = e"
      using Cons.prems(3) k by fastforce
    with Cons.IH[of k'] Cons.prems(1,2) k Inr show ?thesis
      by (simp add: Let_def)
  qed
qed

lemma bulk_update_loop_some_failure:
  assumes "k < length items" and "lookup_item self w (items ! k) = Inl e"
  shows "\<exists>e'. bulk_update_loop self w partial items validated validation_errors = Inl e'"
  using assms
proof (induction items arbitrary: k validated validation_errors)
  case Nil
  then show ?case by simp
next
  case (Cons item items)
  show ?case
  proof (cases "lookup_item self w item")
    case (Inl e0)
    then show ?thesis by simp
  next
    case (Inr obj)
    with Cons.prems obtain k' where "k = Suc k'"
      by (cases k) auto
    with Cons.IH[of k'] Cons.prems Inr show ?thesis
      by (simp add: Let_def)
  qed
qed

text \<open>The loop reads four attributes of the view and nothing else.\<close>

lemma lookup_item_cong:
  assumes "get_queryset self' = get_queryset self"
    and "filter_queryset self' = filter_queryset self"
    and "get_object_or_404 self' = get_object_or_404 self"
  shows "lookup_item self' w item = lookup_item self w item"
  using assms by (simp add: lookup_item_def split: sum.split)

lemma bulk_update_loop_cong:
  assumes "get_queryset self' = get_queryset self"
    and "filter_queryset self' = filter_queryset self"
    and "get_object_or_404 self' = get_object_or_404 self"
    and "get_serializer self' = get_serializer self"
  shows "bulk_update_loop self' w partial items validated validation_errors =
         bulk_update_loop self w partial items validated validation_errors"
proof (induction items arbitrary: validated validation_errors)
  case Nil
  show ?case by simp
next
  case (Cons item items)
  show ?case
    using Cons.IH lookup_item_cong[OF assms(1-3), of w item] assms(4)
    by (simp split: sum.split)
qed

lemma bulk_update_raises:
  assumes "data req = JList items"
    and "bulk_update_loop self w (kwargs_pop kw ''partial'' (JBool False)) items [] [] = Inl e"
  shows "bulk_update self req kw w = (Inl e, w)"
  using assms by (simp add: bulk_update_def)

lemma bulk_update_invalid:
  assumes "data req = JList items"
    and "list_all2 (\<lambda>item obj. lookup_item self w item = Inr obj) items objs"
    and "\<exists>s\<in>set (item_serializers self (kwargs_pop kw ''partial'' (JBool False)) items objs).
           \<not> is_valid s"
  shows "bulk_update self req kw w =
           (Inl (ValidationError (map errors (filter (\<lambda>s. \<not> is_valid s)
              (item_serializers self (kwargs_pop kw ''partial'' (JBool False)) items objs)))), w)"
proof -
  let ?sers = "item_serializers self (kwargs_pop kw ''partial'' (JBool False)) items objs"
  have "filter (\<lambda>s. \<not> is_valid s) ?sers \<noteq> []"
    using assms(3) by (simp add: filter_empty_conv)
  then show ?thesis
    using assms(1) bulk_update_loop_found[OF assms(2), of _ "[]" "[]"]
    by (simp add: bulk_update_def)
qed

section \<open>Bulk update: what the aggregate validation error carries\<close>

text \<open>
  C1, as the code has it. For every bulk update batch of N items whose lookups all
  succeed and in which some item fails validation, the request fails with the aggregate
  validation error, and its payload is the sequence of the error sets of the failing
  items only, in input order: its length is the number of failing items, at least 1 and
  at most N. An item that passed validation contributes no entry, so a position of the
  payload is not the position of the item in the batch.
\<close>

theorem bulk_update_payload_failing_items_only:
  assumes "data req = JList items"
    and "list_all2 (\<lambda>item obj. lookup_item self w item = Inr obj) items objs"
    and "\<exists>s\<in>set (item_serializers self (kwargs_pop kw ''partial'' (JBool False)) items objs).
           \<not> is_valid s"
  shows "bulk_update self req kw w =
           (Inl (ValidationError (map errors (filter (\<lambda>s. \<not> is_valid s)
              (item_serializers self (kwargs_pop kw ''partial'' (JBool False)) items objs)))), w)
         \<and> length (map errors (filter (\<lambda>s. \<not> is_valid s)
              (item_serializers self (kwargs_pop kw ''partial'' (JBool False)) items objs))) =
           length (filter (\<lambda>s. \<not> is_valid s)
              (item_serializers self (kwargs_pop kw ''partial'' (JBool False)) items objs))
         \<and> 0 < length (filter (\<lambda>s. \<not> is_valid s)
              (item_serializers self (kwargs_pop kw ''partial'' (JBool False)) items objs))
         \<and> length (filter (\<lambda>s. \<not> is_valid s)
              (item_serializers self (kwargs_pop kw ''partial'' (JBool False)) items objs))
             \<le> length items"
proof -
  let ?sers = "item_serializers self (kwargs_pop kw ''partial'' (JBool False)) items objs"
  have len: "length ?sers = length items"
    using assms(2) by (simp add: item_serializers_length list_all2_lengthD)
  have "length (filter (\<lambda>s. \<not> is_valid s) ?sers) \<le> length ?sers"
    by (rule length_filter_le)
  moreover have "0 < length (filter (\<lambda>s. \<not> is_valid s) ?sers)"
    using assms(3) by (simp add: filter_empty_conv)
  ultimately show ?thesis
    using bulk_update_invalid[OF assms] len by simp
qed

text \<open>
  The theorem at a batch of two items on the concrete view: the first item is valid, the
  second has no name.
\<close>

theorem bulk_update_payload_failing_items_only_witness:
  "bulk_update (demo_view Map.empty) \<lparr>data = JList [item_ann_renamed, item_bob_nameless]\<rparr>
      Map.empty demo_rows =
     (Inl (ValidationError [[(''name'', [''This field is required.''])]]), demo_rows)"
  using bulk_update_payload_failing_items_only
    [of "\<lparr>data = JList [item_ann_renamed, item_bob_nameless]\<rparr>"
        "[item_ann_renamed, item_bob_nameless]" "demo_view Map.empty" demo_rows
        "[(1, ''ann''), (2, ''bob'')]" Map.empty]
  by (simp add: lookup_item_def demo_view_def demo_rows_def item_ann_renamed_def
      item_bob_nameless_def demo_get_object_or_404_def demo_get_serializer_def item_ok_def
      name_of_def kwargs_pop_def)

text \<open>
  C1 as the specification words it fails on that batch: both lookups succeed, the item
  at position 0 is valid and the item at position 1 is not, and the payload of the error
  has one entry, not two; there is no empty entry for the valid item.
\<close>

theorem bulk_update_payload_counterexample:
  "lookup_item (demo_view Map.empty) demo_rows item_ann_renamed = Inr (1, ''ann'') \<and>
   lookup_item (demo_view Map.empty) demo_rows item_bob_nameless = Inr (2, ''bob'') \<and>
   is_valid (get_serializer (demo_view Map.empty) (1, ''ann'') item_ann_renamed (JBool False)) \<and>
   \<not> is_valid (get_serializer (demo_view Map.empty) (2, ''bob'') item_bob_nameless (JBool False)) \<and>
   bulk_update (demo_view Map.empty) \<lparr>data = JList [item_ann_renamed, item_bob_nameless]\<rparr>
       Map.empty demo_rows =
     (Inl (ValidationError [[(''name'', [''This field is required.''])]]), demo_rows) \<and>
   length [[(''name'', [''This field is required.''])]] \<noteq>
     length [item_ann_renamed, item_bob_nameless]"
  by (simp add: bulk_update_def lookup_item_def demo_view_def demo_rows_def item_ann_renamed_def
      item_bob_nameless_def demo_get_object_or_404_def demo_get_serializer_def item_ok_def
      name_of_def kwargs_pop_def)

section \<open>Bulk update: no save when an item is invalid\<close>

text \<open>
  C2. For every bulk update batch whose lookups all succeed and in which at least one
  item fails its validation, the operation raises the aggregate validation error and
  performs no save: whatever the serializer's \<^verbatim>\<open>save\<close> would do (\<open>save\<close> ranges
  over every behaviour, raising or writing), the outcome is the same error, and the
  persisted records are the ones the request started with.
\<close>

theorem bulk_update_invalid_never_saves:
  assumes "data req = JList items"
    and "list_all2 (\<lambda>item obj. lookup_item self w item = Inr obj) items objs"
    and "\<exists>s\<in>set (item_serializers self (kwargs_pop kw ''partial'' (JBool False)) items objs).
           \<not> is_valid s"
  shows "\<exists>payload. \<forall>save.
           bulk_update (self\<lparr>serializer_save := save\<rparr>) req kw w =
             (Inl (ValidationError payload), w)"
proof -
  let ?partial = "kwargs_pop kw ''partial'' (JBool False)"
  let ?payload = "map errors (filter (\<lambda>s. \<not> is_valid s) (item_serializers self ?partial items objs))"
  have "bulk_update (self\<lparr>serializer_save := save\<rparr>) req kw w =
          (Inl (ValidationError ?payload), w)" for save
  proof -
    let ?self' = "self\<lparr>serializer_save := save\<rparr>"
    have lk: "lookup_item ?self' w item = lookup_item self w item" for item
      by (rule lookup_item_cong) simp_all
    have sers: "item_serializers ?self' ?partial items objs = item_serializers self ?partial items objs"
      by (simp add: item_serializers_def)
    have "list_all2 (\<lambda>item obj. lookup_item ?self' w item = Inr obj) items objs"
      using assms(2) by (simp add: lk)
    from bulk_update_invalid[OF assms(1) this, of kw] assms(3) sers
    show ?thesis by simp
  qed
  then show ?thesis by blast
qed

text \<open>On the concrete view, for the batch of a valid and an invalid item.\<close>

theorem bulk_update_invalid_never_saves_witness:
  "\<exists>payload. \<forall>save.
     bulk_update ((demo_view Map.empty)\<lparr>serializer_save := save\<rparr>)
        \<lparr>data = JList [item_ann_renamed, item_bob_nameless]\<rparr> Map.empty demo_rows =
       (Inl (ValidationError payload), demo_rows)"
  using bulk_update_invalid_never_saves
    [of "\<lparr>data = JList [item_ann_renamed, item_bob_nameless]\<rparr>"
        "[item_ann_renamed, item_bob_nameless]" "demo_view Map.empty" demo_rows
        "[(1, ''ann''), (2, ''bob'')]" Map.empty]
  by (simp add: lookup_item_def demo_view_def demo_rows_def item_ann_renamed_def
      item_bob_nameless_def demo_get_object_or_404_def demo_get_serializer_def item_ok_def
      name_of_def kwargs_pop_def)

section \<open>Bulk update: every item is validated\<close>

text \<open>
  C3. For every bulk update batch whose lookups all succeed, the loop validates every
  item and never raises on an invalid one: it returns normally with one validated-data
  entry per item of the batch, in input order, and with the error set of every invalid
  item in the accumulator, also of those that come after an earlier invalid item. Only
  then, with the complete accumulator as payload, is the aggregate error raised.
\<close>

theorem bulk_update_validates_every_item:
  assumes "data req = JList items"
    and "list_all2 (\<lambda>item obj. lookup_item self w item = Inr obj) items objs"
    and "partial = kwargs_pop kw ''partial'' (JBool False)"
    and "sers = item_serializers self partial items objs"
  shows "bulk_update_loop self w partial items [] [] =
           Inr (map validated_data sers, map errors (filter (\<lambda>s. \<not> is_valid s) sers))
         \<and> length (map validated_data sers) = length items
         \<and> (\<forall>s\<in>set sers. \<not> is_valid s \<longrightarrow>
               errors s \<in> set (map errors (filter (\<lambda>s. \<not> is_valid s) sers)))
         \<and> ((\<exists>s\<in>set sers. \<not> is_valid s) \<longrightarrow>
               bulk_update self req kw w =
                 (Inl (ValidationError (map errors (filter (\<lambda>s. \<not> is_valid s) sers))), w))"
proof -
  have len: "length (map validated_data sers) = length items"
    using assms(2,4) by (simp add: item_serializers_length list_all2_lengthD)
  have loop: "bulk_update_loop self w partial items [] [] =
           Inr (map validated_data sers, map errors (filter (\<lambda>s. \<not> is_valid s) sers))"
    using bulk_update_loop_found[OF assms(2), of partial "[]" "[]"] assms(4) by simp
  have collected: "\<forall>s\<in>set sers. \<not> is_valid s \<longrightarrow>
      errors s \<in> set (map errors (filter (\<lambda>s. \<not> is_valid s) sers))"
    by auto
  have raised: "bulk_update self req kw w =
      (Inl (ValidationError (map errors (filter (\<lambda>s. \<not> is_valid s) sers))), w)"
    if "\<exists>s\<in>set sers. \<not> is_valid s"
    using bulk_update_invalid[OF assms(1,2), of kw] assms(3,4) that by simp
  from loop len collected raised show ?thesis by blast
qed

text \<open>
  A batch whose first and last items are invalid: the item between them is validated,
  and so is the last one.
\<close>

theorem bulk_update_validates_every_item_witness:
  "bulk_update_loop (demo_view Map.empty) demo_rows (JBool False)
      [item_bob_nameless, item_ann_renamed, item_bob_nameless] [] [] =
     Inr ([JDict [], JDict [(''id'', JInt 1), (''name'', JStr ''anna'')], JDict []],
          [[(''name'', [''This field is required.''])], [(''name'', [''This field is required.''])]])
   \<and> bulk_update (demo_view Map.empty)
        \<lparr>data = JList [item_bob_nameless, item_ann_renamed, item_bob_nameless]\<rparr>
        Map.empty demo_rows =
     (Inl (ValidationError
        [[(''name'', [''This field is required.''])], [(''name'', [''This field is required.''])]]),
      demo_rows)"
  using bulk_update_validates_every_item
    [of "\<lparr>data = JList [item_bob_nameless, item_ann_renamed, item_bob_nameless]\<rparr>"
        "[item_bob_nameless, item_ann_renamed, item_bob_nameless]" "demo_view Map.empty" demo_rows
        "[(2, ''bob''), (1, ''ann''), (2, ''bob'')]" "JBool False" Map.empty
        "item_serializers (demo_view Map.empty) (JBool False)
           [item_bob_nameless, item_ann_renamed, item_bob_nameless]
           [(2, ''bob''), (1, ''ann''), (2, ''bob'')]"]
  by (simp add: lookup_item_def demo_view_def demo_rows_def item_ann_renamed_def
      item_bob_nameless_def demo_get_object_or_404_def demo_get_serializer_def item_ok_def
      name_of_def kwargs_pop_def)

section \<open>Bulk create\<close>

text \<open>
  C5. For every request body that is not a list, and so for every single
  item-representation, \<^verbatim>\<open>create\<close> is the single-object create of the parent class: the
  same outcome (response with its status and body, or exception) and the same effect on
  the persisted records.
\<close>

theorem create_single_item_delegates:
  assumes "\<forall>items. data req \<noteq> JList items"
  shows "create self req w = super_create self req w"
  using assms by (cases "data req") (simp_all add: create_def)

text \<open>A single item on the concrete view.\<close>

theorem create_single_item_delegates_witness:
  "create (demo_view Map.empty) \<lparr>data = JDict [(''name'', JStr ''cy'')]\<rparr> demo_rows =
     (Inr (Response (Some (JDict [(''id'', JInt 3), (''name'', JStr ''cy'')])) HTTP_201_CREATED),
      [(1, ''ann''), (2, ''bob''), (3, ''cy'')])
   \<and> create (demo_view Map.empty) \<lparr>data = JDict [(''name'', JStr ''cy'')]\<rparr> demo_rows =
     super_create (demo_view Map.empty) \<lparr>data = JDict [(''name'', JStr ''cy'')]\<rparr> demo_rows"
  using create_single_item_delegates
    [of "\<lparr>data = JDict [(''name'', JStr ''cy'')]\<rparr>" "demo_view Map.empty" demo_rows]
  by (simp add: demo_view_def demo_rows_def demo_super_create_def item_ok_def name_of_def
      to_representation_def)

text \<open>
  C6. For every list payload that fails the collection-mode validation, that is, for
  which \<^verbatim>\<open>is_valid(raise_exception=True)\<close> raises, the exception is raised before
  anything is persisted: the outcome is that exception whatever \<^verbatim>\<open>perform_create\<close>
  would do, and the persisted records are unchanged.
\<close>

theorem create_invalid_list_persists_nothing:
  assumes "data req = JList items"
    and "is_valid_raise_exception self (get_serializer_many self None (data req) None) = Inl e"
  shows "\<forall>pc. create (self\<lparr>perform_create := pc\<rparr>) req w = (Inl e, w)"
  using assms by (simp add: create_def)

text \<open>A list with a valid and an invalid item on the concrete view.\<close>

theorem create_invalid_list_persists_nothing_witness:
  "\<forall>pc. create ((demo_view Map.empty)\<lparr>perform_create := pc\<rparr>)
      \<lparr>data = JList [JDict [(''name'', JStr ''cy'')], JDict []]\<rparr> demo_rows =
     (Inl (Raised ''rest_framework.exceptions.ValidationError''), demo_rows)"
  using create_invalid_list_persists_nothing
    [of "\<lparr>data = JList [JDict [(''name'', JStr ''cy'')], JDict []]\<rparr>"
        "[JDict [(''name'', JStr ''cy'')], JDict []]" "demo_view Map.empty"
        "Raised ''rest_framework.exceptions.ValidationError''" demo_rows]
  by (simp add: demo_view_def demo_is_valid_raise_exception_def item_ok_def)

section \<open>Object lookup without an identifier\<close>

text \<open>
  C8. When the identifier keyword (\<^verbatim>\<open>lookup_url_kwarg or lookup_field\<close>) is not among
  the view's resolved arguments, \<^verbatim>\<open>get_object\<close> returns \<^verbatim>\<open>None\<close>: it does not raise
  and it does not call the parent's lookup, whatever that lookup would do. When the
  keyword is present, the result is the parent's lookup, unchanged.
\<close>

theorem get_object_without_identifier:
  "(py_or (lookup_url_kwarg self) (lookup_field self) \<notin> dom (kwargs self) \<longrightarrow>
      (\<forall>sup. get_object (self\<lparr>super_get_object := sup\<rparr>) w = Inr None))
   \<and> (py_or (lookup_url_kwarg self) (lookup_field self) \<in> dom (kwargs self) \<longrightarrow>
      get_object self w = map_sum id Some (super_get_object self w))"
  by (cases "super_get_object self w") (simp_all add: get_object_def)

text \<open>Without an identifier, with one that resolves and with one that does not.\<close>

theorem get_object_without_identifier_witness:
  "get_object (demo_view Map.empty) demo_rows = Inr None
   \<and> get_object (demo_view [''pk'' \<mapsto> JInt 2]) demo_rows = Inr (Some (2, ''bob''))
   \<and> get_object (demo_view [''pk'' \<mapsto> JInt 7]) demo_rows = Inl Http404"
  using get_object_without_identifier [of "demo_view Map.empty" demo_rows]
    get_object_without_identifier [of "demo_view [''pk'' \<mapsto> JInt 2]" demo_rows]
    get_object_without_identifier [of "demo_view [''pk'' \<mapsto> JInt 7]" demo_rows]
  by (simp add: demo_view_def demo_rows_def py_or_def demo_super_get_object_def
      demo_get_object_or_404_def)

section \<open>Bulk destroy\<close>

text \<open>
  When every per-object destroy call of the run returns, each on the records the call
  before it left, the loop has called it once on each object, in order.
\<close>

lemma perform_bulk_destroy_returns:
  assumes "\<forall>i<length objs.
             fst (perform_destroy self (objs ! i)
                    (fold (\<lambda>obj w'. snd (perform_destroy self obj w')) (take i objs) w)) = Inr ()"
  shows "perform_bulk_destroy self objs w =
           (Inr (), fold (\<lambda>obj w'. snd (perform_destroy self obj w')) objs w)"
  using assms
proof (induction objs arbitrary: w)
  case Nil
  show ?case by simp
next
  case (Cons obj objs)
  let ?step = "\<lambda>obj w'. snd (perform_destroy self obj w')"
  from Cons.prems have "fst (perform_destroy self obj w) = Inr ()"
    by fastforce
  then obtain w1 where step: "perform_destroy self obj w = (Inr (), w1)"
    by (cases "perform_destroy self obj w") simp
  have "\<forall>i<length objs. fst (perform_destroy self (objs ! i) (fold ?step (take i objs) w1)) = Inr ()"
  proof (intro allI impI)
    fix i
    assume "i < length objs"
    then have "Suc i < length (obj # objs)" by simp
    with Cons.prems
    have "fst (perform_destroy self ((obj # objs) ! Suc i)
                 (fold ?step (take (Suc i) (obj # objs)) w)) = Inr ()"
      by blast
    with step
    show "fst (perform_destroy self (objs ! i) (fold ?step (take i objs) w1)) = Inr ()"
      by simp
  qed
  from Cons.IH[OF this] step show ?case by simp
qed

text \<open>
  The first destroy call that raises ends the loop with its exception: the objects
  before it stay deleted and the objects after it are not touched.
\<close>

lemma perform_bulk_destroy_raises:
  assumes "k < length objs"
    and "\<forall>i<k. fst (perform_destroy self (objs ! i)
                    (fold (\<lambda>obj w'. snd (perform_destroy self obj w')) (take i objs) w)) = Inr ()"
    and "fst (perform_destroy self (objs ! k)
                (fold (\<lambda>obj w'. snd (perform_destroy self obj w')) (take k objs) w)) = Inl e"
  shows "perform_bulk_destroy self objs w =
           (Inl e, snd (perform_destroy self (objs ! k)
                      (fold (\<lambda>obj w'. snd (perform_destroy self obj w')) (take k objs) w)))"
  using assms
proof (induction objs arbitrary: k w)
  case Nil
  then show ?case by simp
next
  case (Cons obj objs)
  let ?step = "\<lambda>obj w'. snd (perform_destroy self obj w')"
  show ?case
  proof (cases k)
    case 0
    with Cons.prems(3) show ?thesis
      by (cases "perform_destroy self obj w") simp
  next
    case (Suc k')
    with Cons.prems(2) have "fst (perform_destroy self obj w) = Inr ()"
      by fastforce
    then obtain w1 where step: "perform_destroy self obj w = (Inr (), w1)"
      by (cases "perform_destroy self obj w") simp
    have k': "k' < length objs"
      using Cons.prems(1) Suc by simp
    have before: "\<forall>i<k'. fst (perform_destroy self (objs ! i) (fold ?step (take i objs) w1)) = Inr ()"
    proof (intro allI impI)
      fix i
      assume "i < k'"
      then have "Suc i < k" using Suc by simp
      with Cons.prems(2)
      have "fst (perform_destroy self ((obj # objs) ! Suc i)
                   (fold ?step (take (Suc i) (obj # objs)) w)) = Inr ()"
        by blast
      with step
      show "fst (perform_destroy self (objs ! i) (fold ?step (take i objs) w1)) = Inr ()"
        by simp
    qed
    have at: "fst (perform_destroy self (objs ! k') (fold ?step (take k' objs) w1)) = Inl e"
      using Cons.prems(3) Suc step by simp
    from Cons.IH[OF k' before at] step Suc show ?thesis by simp
  qed
qed

text \<open>
  C4, as the code has it. The default guard accepts exactly when the filtered queryset is
  another object than the base queryset. When the guard rejects, the response is 400 with
  no body and nothing is deleted: the persisted records are unchanged, whatever the
  instances' \<^verbatim>\<open>delete\<close> would do. When the guard accepts, \<^verbatim>\<open>perform_destroy\<close> is called
  on the objects of the filtered queryset in order, each call on its own and on the
  records the call before it left. If every call of the run returns, every object of the
  filtered queryset has been destroyed and the response is 204 with no body. If a call
  raises, its exception leaves the request in place of a response, the deletions made
  before it remain and the objects after it are not destroyed.
\<close>

theorem bulk_destroy_guarded:
  assumes "qs = get_queryset self w"
    and "filtered = filter_queryset self qs"
    and "objs = rows filtered"
  shows
  "(allow_bulk_destroy self a b \<longleftrightarrow> oid a \<noteq> oid b)
   \<and> (\<not> allow_bulk_destroy self qs filtered \<longrightarrow>
        (\<forall>del. bulk_destroy (self\<lparr>instance_delete := del\<rparr>) req w =
                 (Inr (Response None HTTP_400_BAD_REQUEST), w)))
   \<and> (allow_bulk_destroy self qs filtered \<and>
       (\<forall>i<length objs.
           fst (perform_destroy self (objs ! i)
                  (fold (\<lambda>obj w'. snd (perform_destroy self obj w')) (take i objs) w)) = Inr ()) \<longrightarrow>
        bulk_destroy self req w =
          (Inr (Response None HTTP_204_NO_CONTENT),
           fold (\<lambda>obj w'. snd (perform_destroy self obj w')) objs w))
   \<and> (allow_bulk_destroy self qs filtered \<and> k < length objs \<and>
       (\<forall>i<k.
           fst (perform_destroy self (objs ! i)
                  (fold (\<lambda>obj w'. snd (perform_destroy self obj w')) (take i objs) w)) = Inr ()) \<and>
       fst (perform_destroy self (objs ! k)
              (fold (\<lambda>obj w'. snd (perform_destroy self obj w')) (take k objs) w)) = Inl e \<longrightarrow>
        bulk_destroy self req w =
          (Inl e,
           snd (perform_destroy self (objs ! k)
                  (fold (\<lambda>obj w'. snd (perform_destroy self obj w')) (take k objs) w))))"
proof (intro conjI impI allI)
  show "allow_bulk_destroy self a b \<longleftrightarrow> oid a \<noteq> oid b"
    by (simp add: allow_bulk_destroy_def is_not_def)
next
  fix del
  assume "\<not> allow_bulk_destroy self qs filtered"
  then show "bulk_destroy (self\<lparr>instance_delete := del\<rparr>) req w =
               (Inr (Response None HTTP_400_BAD_REQUEST), w)"
    using assms(1,2) by (simp add: bulk_destroy_def allow_bulk_destroy_def)
next
  let ?step = "\<lambda>obj w'. snd (perform_destroy self obj w')"
  assume a: "allow_bulk_destroy self qs filtered \<and>
       (\<forall>i<length objs. fst (perform_destroy self (objs ! i) (fold ?step (take i objs) w)) = Inr ())"
  then have "perform_bulk_destroy self objs w = (Inr (), fold ?step objs w)"
    by (intro perform_bulk_destroy_returns) simp
  with a assms show "bulk_destroy self req w =
      (Inr (Response None HTTP_204_NO_CONTENT), fold ?step objs w)"
    by (simp add: bulk_destroy_def Let_def)
next
  let ?step = "\<lambda>obj w'. snd (perform_destroy self obj w')"
  assume a: "allow_bulk_destroy self qs filtered \<and> k < length objs \<and>
       (\<forall>i<k. fst (perform_destroy self (objs ! i) (fold ?step (take i objs) w)) = Inr ()) \<and>
       fst (perform_destroy self (objs ! k) (fold ?step (take k objs) w)) = Inl e"
  then have "perform_bulk_destroy self objs w =
      (Inl e, snd (perform_destroy self (objs ! k) (fold ?step (take k objs) w)))"
    by (intro perform_bulk_destroy_raises) simp_all
  with a assms show "bulk_destroy self req w =
      (Inl e, snd (perform_destroy self (objs ! k) (fold ?step (take k objs) w)))"
    by (simp add: bulk_destroy_def Let_def)
qed

text \<open>
  Three runs on three rows. On the view whose delete raises for a row that is not
  persisted, every call of the run returns and the three rows are deleted; with no filter
  at all (the base queryset comes back as it is) the request is refused; on the view
  that protects the row with primary key 2, the second call raises.
\<close>

theorem bulk_destroy_guarded_witness:
  "bulk_destroy strict_view \<lparr>data = JNull\<rparr> three_rows =
     (Inr (Response None HTTP_204_NO_CONTENT), [])
   \<and> (\<forall>del. bulk_destroy
         ((demo_view Map.empty)\<lparr>filter_queryset := (\<lambda>qs. qs), instance_delete := del\<rparr>)
         \<lparr>data = JNull\<rparr> three_rows =
       (Inr (Response None HTTP_400_BAD_REQUEST), three_rows))
   \<and> bulk_destroy protected_view \<lparr>data = JNull\<rparr> three_rows =
     (Inl (Raised ''ProtectedError''), [(2, ''bob''), (3, ''cy'')])"
proof -
  note accept = bulk_destroy_guarded
    [OF refl refl refl, of strict_view _ _ three_rows "\<lparr>data = JNull\<rparr>"]
  note reject = bulk_destroy_guarded
    [OF refl refl refl, of "(demo_view Map.empty)\<lparr>filter_queryset := (\<lambda>qs. qs)\<rparr>" _ _
       three_rows "\<lparr>data = JNull\<rparr>"]
  note raise = bulk_destroy_guarded
    [OF refl refl refl, of protected_view _ _ three_rows "\<lparr>data = JNull\<rparr>" 1
       "Raised ''ProtectedError''"]
  have r1: "bulk_destroy strict_view \<lparr>data = JNull\<rparr> three_rows =
     (Inr (Response None HTTP_204_NO_CONTENT), [])"
    using accept
    by (simp add: strict_view_def demo_view_def three_rows_def allow_bulk_destroy_def is_not_def
        perform_destroy_def All_less_Suc)
  have r2: "\<forall>del. bulk_destroy
         ((demo_view Map.empty)\<lparr>filter_queryset := (\<lambda>qs. qs), instance_delete := del\<rparr>)
         \<lparr>data = JNull\<rparr> three_rows =
       (Inr (Response None HTTP_400_BAD_REQUEST), three_rows)"
    using reject
    by (simp add: demo_view_def allow_bulk_destroy_def is_not_def)
  have r3: "bulk_destroy protected_view \<lparr>data = JNull\<rparr> three_rows =
     (Inl (Raised ''ProtectedError''), [(2, ''bob''), (3, ''cy'')])"
    using raise
    by (simp add: protected_view_def demo_view_def three_rows_def allow_bulk_destroy_def
        is_not_def perform_destroy_def)
  from r1 r2 r3 show ?thesis by simp
qed

text \<open>
  C4 as the specification words it fails on the view that protects the row with primary
  key 2: the guard accepts, the filtered queryset holds the three rows, and the request
  ends with the exception of the second delete, not with a 204 response; the rows with
  primary keys 2 and 3 are still persisted.
\<close>

theorem bulk_destroy_guarded_counterexample:
  "allow_bulk_destroy protected_view (get_queryset protected_view three_rows)
     (filter_queryset protected_view (get_queryset protected_view three_rows)) \<and>
   rows (filter_queryset protected_view (get_queryset protected_view three_rows)) = three_rows \<and>
   bulk_destroy protected_view \<lparr>data = JNull\<rparr> three_rows =
     (Inl (Raised ''ProtectedError''), [(2, ''bob''), (3, ''cy'')]) \<and>
   fst (bulk_destroy protected_view \<lparr>data = JNull\<rparr> three_rows) \<noteq>
     Inr (Response None HTTP_204_NO_CONTENT)"
  by (simp add: bulk_destroy_def protected_view_def demo_view_def three_rows_def
      allow_bulk_destroy_def is_not_def perform_destroy_def)

text \<open>
  On the second view a delete does raise on other records than those of the run above,
  so the run is what the theorem asks about, not every call that could be made.
\<close>

lemma strict_view_delete_raises:
  "fst (perform_destroy strict_view (1, ''ann'') []) = Inl (Raised ''DoesNotExist'')"
  by (simp add: perform_destroy_def strict_view_def demo_view_def)

text \<open>
  C9. There are a base queryset and a filtered queryset that yield exactly the same
  records and are two objects: on the concrete view the filter keeps the positive
  primary keys, which is every record. The default guard accepts, and the operation
  deletes every record of the collection.
\<close>

theorem bulk_destroy_filter_matching_everything:
  "rows (get_queryset (demo_view Map.empty) demo_rows) = demo_rows
   \<and> rows (filter_queryset (demo_view Map.empty) (get_queryset (demo_view Map.empty) demo_rows)) =
       rows (get_queryset (demo_view Map.empty) demo_rows)
   \<and> oid (filter_queryset (demo_view Map.empty) (get_queryset (demo_view Map.empty) demo_rows)) \<noteq>
       oid (get_queryset (demo_view Map.empty) demo_rows)
   \<and> allow_bulk_destroy (demo_view Map.empty) (get_queryset (demo_view Map.empty) demo_rows)
       (filter_queryset (demo_view Map.empty) (get_queryset (demo_view Map.empty) demo_rows))
   \<and> demo_rows \<noteq> []
   \<and> bulk_destroy (demo_view Map.empty) \<lparr>data = JNull\<rparr> demo_rows =
       (Inr (Response None HTTP_204_NO_CONTENT), [])"
  by (simp add: bulk_destroy_def demo_view_def demo_rows_def allow_bulk_destroy_def is_not_def
      perform_destroy_def)

section \<open>Bulk update: lookups that raise\<close>

text \<open>An exception of the loop leaves \<^verbatim>\<open>bulk_update\<close> before \<^verbatim>\<open>save\<close> is reached.\<close>

lemma bulk_update_save_irrelevant_on_raise:
  assumes "data req = JList items"
    and "bulk_update_loop self w (kwargs_pop kw ''partial'' (JBool False)) items [] [] = Inl e"
  shows "bulk_update (self\<lparr>serializer_save := save\<rparr>) req kw w = (Inl e, w)"
proof -
  have "bulk_update_loop (self\<lparr>serializer_save := save\<rparr>) w
          (kwargs_pop kw ''partial'' (JBool False)) items [] [] =
        bulk_update_loop self w (kwargs_pop kw ''partial'' (JBool False)) items [] []"
    by (rule bulk_update_loop_cong) simp_all
  with assms(2) show ?thesis
    by (intro bulk_update_raises[OF assms(1)]) simp
qed

lemma getitem_missing_key:
  assumes "k \<notin> fst ` set kvs"
  shows "getitem (JDict kvs) k = Inl (KeyError k)"
proof -
  from assms have "map_of kvs k = None"
    by (simp only: map_of_eq_None_iff not_False_eq_True)
  then show ?thesis by simp
qed

text \<open>
  C7, as the code has it. For every bulk update batch containing an item whose identifier
  does not resolve to an object of the filtered queryset, the request is aborted by an
  exception of the per-item lookups before the batch save is reached, whatever
  \<^verbatim>\<open>save\<close> would do, and every persisted record is unmodified. The exception is the
  not-found condition when no earlier item's lookup raises another exception; the loop
  stops at the first lookup that raises.
\<close>

theorem bulk_update_unresolved_identifier:
  assumes "data req = JList items"
    and "k < length items"
    and "getitem (items ! k) ''id'' = Inr ident"
    and "get_object_or_404 self (filter_queryset self (get_queryset self w)) ident = Inl Http404"
  shows "(\<exists>e. \<forall>save. bulk_update (self\<lparr>serializer_save := save\<rparr>) req kw w = (Inl e, w))
       \<and> ((\<forall>j<k. \<forall>e. lookup_item self w (items ! j) = Inl e \<longrightarrow> e = Http404) \<longrightarrow>
            (\<forall>save. bulk_update (self\<lparr>serializer_save := save\<rparr>) req kw w = (Inl Http404, w)))"
proof -
  let ?partial = "kwargs_pop kw ''partial'' (JBool False)"
  have lk: "lookup_item self w (items ! k) = Inl Http404"
    using assms(3,4) by (simp add: lookup_item_def)
  from bulk_update_loop_some_failure[OF assms(2) lk, of ?partial "[]" "[]"]
  obtain e where "bulk_update_loop self w ?partial items [] [] = Inl e" ..
  then have "\<forall>save. bulk_update (self\<lparr>serializer_save := save\<rparr>) req kw w = (Inl e, w)"
    by (simp add: bulk_update_save_irrelevant_on_raise[OF assms(1)])
  then have aborted: "\<exists>e. \<forall>save. bulk_update (self\<lparr>serializer_save := save\<rparr>) req kw w = (Inl e, w)" ..
  have "\<forall>save. bulk_update (self\<lparr>serializer_save := save\<rparr>) req kw w = (Inl Http404, w)"
    if "\<forall>j<k. \<forall>e. lookup_item self w (items ! j) = Inl e \<longrightarrow> e = Http404"
    using bulk_update_loop_raises[OF assms(2) lk that, of ?partial "[]" "[]"]
    by (simp add: bulk_update_save_irrelevant_on_raise[OF assms(1)])
  with aborted show ?thesis by blast
qed

text \<open>The second of three items has an identifier that no row carries.\<close>

theorem bulk_update_unresolved_identifier_witness:
  "\<forall>save. bulk_update ((demo_view Map.empty)\<lparr>serializer_save := save\<rparr>)
      \<lparr>data = JList [item_ann_renamed, item_unknown, item_bob_nameless]\<rparr> Map.empty demo_rows =
     (Inl Http404, demo_rows)"
  using bulk_update_unresolved_identifier
    [of "\<lparr>data = JList [item_ann_renamed, item_unknown, item_bob_nameless]\<rparr>"
        "[item_ann_renamed, item_unknown, item_bob_nameless]" 1 "JInt 99"
        "demo_view Map.empty" demo_rows Map.empty]
  by (simp add: lookup_item_def demo_view_def demo_rows_def item_ann_renamed_def
      item_unknown_def demo_get_object_or_404_def)

text \<open>
  C7 as the specification words it fails on a batch whose first item has no \<^verbatim>\<open>id\<close> and
  whose second item has an identifier that does not resolve: the request is aborted by
  the key-lookup error of the first item, not by a not-found condition.
\<close>

theorem bulk_update_unresolved_identifier_counterexample:
  "getitem item_unknown ''id'' = Inr (JInt 99) \<and>
   get_object_or_404 (demo_view Map.empty)
     (filter_queryset (demo_view Map.empty) (get_queryset (demo_view Map.empty) demo_rows))
     (JInt 99) = Inl Http404 \<and>
   bulk_update (demo_view Map.empty) \<lparr>data = JList [item_without_id, item_unknown]\<rparr>
     Map.empty demo_rows = (Inl (KeyError ''id''), demo_rows) \<and>
   KeyError ''id'' \<noteq> Http404"
  by (simp add: bulk_update_def lookup_item_def demo_view_def demo_rows_def item_without_id_def
      item_unknown_def demo_get_object_or_404_def kwargs_pop_def)

text \<open>
  C10, as the code has it. For every bulk update batch the identifier of each item is
  read from the key \<^verbatim>\<open>id\<close>, whatever the view's \<^verbatim>\<open>lookup_field\<close> and
  \<^verbatim>\<open>lookup_url_kwarg\<close> are. An item that is a mapping without the key \<^verbatim>\<open>id\<close> aborts
  the whole request with an exception before any save is performed, whatever \<^verbatim>\<open>save\<close>
  would do, and the persisted records are unmodified. The exception is the key-lookup
  error, not a validation error, when no earlier item's lookup raises another exception;
  the loop stops at the first lookup that raises.
\<close>

theorem bulk_update_item_without_id:
  assumes "data req = JList items"
    and "k < length items"
    and "items ! k = JDict kvs"
    and "''id'' \<notin> fst ` set kvs"
  shows "(\<forall>field url_kwarg.
            bulk_update (self\<lparr>lookup_field := field, lookup_url_kwarg := url_kwarg\<rparr>) req kw w =
            bulk_update self req kw w)
       \<and> (\<forall>item ident. getitem item ''id'' = Inr ident \<longrightarrow>
            lookup_item self w item =
              get_object_or_404 self (filter_queryset self (get_queryset self w)) ident)
       \<and> (\<exists>e. \<forall>save. bulk_update (self\<lparr>serializer_save := save\<rparr>) req kw w = (Inl e, w))
       \<and> ((\<forall>j<k. \<forall>e. lookup_item self w (items ! j) = Inl e \<longrightarrow> e = KeyError ''id'') \<longrightarrow>
            (\<forall>save. bulk_update (self\<lparr>serializer_save := save\<rparr>) req kw w =
               (Inl (KeyError ''id''), w)))"
proof -
  let ?partial = "kwargs_pop kw ''partial'' (JBool False)"
  have field: "bulk_update (self\<lparr>lookup_field := field, lookup_url_kwarg := url_kwarg\<rparr>) req kw w =
            bulk_update self req kw w" for field url_kwarg
  proof -
    have "bulk_update_loop (self\<lparr>lookup_field := field, lookup_url_kwarg := url_kwarg\<rparr>) w
            ?partial its [] [] = bulk_update_loop self w ?partial its [] []" for its
      by (rule bulk_update_loop_cong) simp_all
    then show ?thesis
      by (simp add: bulk_update_def perform_bulk_update_def perform_update_def Let_def
          split: sum.split prod.split)
  qed
  have "id": "lookup_item self w item =
      get_object_or_404 self (filter_queryset self (get_queryset self w)) ident"
    if "getitem item ''id'' = Inr ident" for item ident
    using that by (simp add: lookup_item_def)
  have lk: "lookup_item self w (items ! k) = Inl (KeyError ''id'')"
    using assms(3) getitem_missing_key[OF assms(4)] by (simp add: lookup_item_def)
  from bulk_update_loop_some_failure[OF assms(2) lk, of ?partial "[]" "[]"]
  obtain e where "bulk_update_loop self w ?partial items [] [] = Inl e" ..
  then have "\<forall>save. bulk_update (self\<lparr>serializer_save := save\<rparr>) req kw w = (Inl e, w)"
    by (simp add: bulk_update_save_irrelevant_on_raise[OF assms(1)])
  then have aborted: "\<exists>e. \<forall>save. bulk_update (self\<lparr>serializer_save := save\<rparr>) req kw w = (Inl e, w)" ..
  have first: "\<forall>save. bulk_update (self\<lparr>serializer_save := save\<rparr>) req kw w = (Inl (KeyError ''id''), w)"
    if "\<forall>j<k. \<forall>e. lookup_item self w (items ! j) = Inl e \<longrightarrow> e = KeyError ''id''"
    using bulk_update_loop_raises[OF assms(2) lk that, of ?partial "[]" "[]"]
    by (simp add: bulk_update_save_irrelevant_on_raise[OF assms(1)])
  from field "id" aborted first show ?thesis by blast
qed

text \<open>The second of three items has no \<^verbatim>\<open>id\<close>.\<close>

theorem bulk_update_item_without_id_witness:
  "(\<forall>save. bulk_update ((demo_view Map.empty)\<lparr>serializer_save := save\<rparr>)
      \<lparr>data = JList [item_ann_renamed, item_without_id, item_bob_nameless]\<rparr> Map.empty demo_rows =
     (Inl (KeyError ''id''), demo_rows))
   \<and> (\<forall>field url_kwarg.
        bulk_update ((demo_view Map.empty)\<lparr>lookup_field := field, lookup_url_kwarg := url_kwarg\<rparr>)
          \<lparr>data = JList [item_ann_renamed, item_without_id, item_bob_nameless]\<rparr> Map.empty
          demo_rows =
        (Inl (KeyError ''id''), demo_rows))"
proof -
  let ?items = "[item_ann_renamed, item_without_id, item_bob_nameless]"
  let ?req = "\<lparr>data = JList ?items\<rparr>"
  let ?V = "demo_view Map.empty"
  have h1: "data ?req = JList ?items" by simp
  have h2: "1 < length ?items" by simp
  have h3: "?items ! 1 = JDict [(''name'', JStr ''zed'')]"
    by (simp add: item_without_id_def)
  have h4: "''id'' \<notin> fst ` set [(''name'', JStr ''zed'')]" by simp
  have h5: "\<forall>j<1. \<forall>e. lookup_item ?V demo_rows (?items ! j) = Inl e \<longrightarrow> e = KeyError ''id''"
    by (simp add: lookup_item_def demo_view_def demo_rows_def item_ann_renamed_def
        demo_get_object_or_404_def)
  note t = bulk_update_item_without_id[OF h1 h2 h3 h4, of ?V Map.empty demo_rows]
  from t have inv: "bulk_update (?V\<lparr>lookup_field := field, lookup_url_kwarg := url_kwarg\<rparr>)
      ?req Map.empty demo_rows = bulk_update ?V ?req Map.empty demo_rows" for field url_kwarg
    by blast
  from t h5 have res: "bulk_update (?V\<lparr>serializer_save := save\<rparr>) ?req Map.empty demo_rows =
      (Inl (KeyError ''id''), demo_rows)" for save
    by blast
  from res[of "serializer_save ?V"]
  have "bulk_update ?V ?req Map.empty demo_rows = (Inl (KeyError ''id''), demo_rows)"
    by simp
  with inv res show ?thesis by simp
qed

text \<open>
  C10 as stated fails on a batch whose first item has an identifier that does not
  resolve and whose second item has no \<^verbatim>\<open>id\<close>: the request is aborted by the
  not-found condition of the first item, not by a key-lookup error.
\<close>

theorem bulk_update_item_without_id_counterexample:
  "item_without_id = JDict [(''name'', JStr ''zed'')] \<and>
   bulk_update (demo_view Map.empty) \<lparr>data = JList [item_unknown, item_without_id]\<rparr>
     Map.empty demo_rows = (Inl Http404, demo_rows) \<and>
   Http404 \<noteq> KeyError ''id''"
  by (simp add: bulk_update_def lookup_item_def demo_view_def demo_rows_def item_without_id_def
      item_unknown_def demo_get_object_or_404_def kwargs_pop_def)

end
